theory Spec2Isabelle
  imports Complex_Main "HOL-Library.AList"
begin

section \<open>Python values\<close>

text \<open>
  A Python float is either a finite number or one of the three non-finite values.
  Finite floats are modelled as real numbers with exact arithmetic: rounding and overflow
  of IEEE doubles are abstracted away, the non-finite values and the way they propagate
  through \<open>+\<close> and \<open>/\<close> are kept.
\<close>

datatype pyfloat = Finite real | NaN | PosInf | NegInf

text \<open>
  The values found in a record of the library's result table: text columns, the list of
  retrieved contexts, and scores. \<open>bool\<close> is kept apart from \<open>int\<close> although
  Python's \<open>isinstance(True, int)\<close> holds; \<open>isinstance_int_float\<close> below accounts for it.
\<close>

datatype pyval =
    PyNone
  | PyBool bool
  | PyInt int
  | PyFloat pyfloat
  | PyStr string
  | PyStrList "string list"

text \<open>An optional float stored as a value: \<open>None\<close> or the float.\<close>

fun opt_val :: "pyfloat option \<Rightarrow> pyval" where
  "opt_val None = PyNone"
| "opt_val (Some m) = PyFloat m"

text \<open>A dict keeps insertion order and has one entry per key.\<close>

type_synonym pydict = "(string \<times> pyval) list"

datatype py_exception =
    ValueError string
  | TypeError string
  | ZeroDivisionError string
  | LibraryError string

text \<open>\<open>str(e)\<close>: the message of an exception.\<close>

fun str_exc :: "py_exception \<Rightarrow> string" where
  "str_exc (ValueError m) = m"
| "str_exc (TypeError m) = m"
| "str_exc (ZeroDivisionError m) = m"
| "str_exc (LibraryError m) = m"

text \<open>\<open>math.isnan\<close> and \<open>math.isinf\<close>.\<close>

fun isnan :: "pyfloat \<Rightarrow> bool" where
  "isnan NaN = True"
| "isnan _ = False"

fun isinf :: "pyfloat \<Rightarrow> bool" where
  "isinf PosInf = True"
| "isinf NegInf = True"
| "isinf _ = False"

text \<open>\<open>isinstance(v, (int, float))\<close>; a bool is an int.\<close>

fun isinstance_int_float :: "pyval \<Rightarrow> bool" where
  "isinstance_int_float (PyBool _) = True"
| "isinstance_int_float (PyInt _) = True"
| "isinstance_int_float (PyFloat _) = True"
| "isinstance_int_float _ = False"

text \<open>Float addition: NaN is contagious, opposite infinities give NaN.\<close>

fun fadd :: "pyfloat \<Rightarrow> pyfloat \<Rightarrow> pyfloat" where
  "fadd (Finite x) (Finite y) = Finite (x + y)"
| "fadd NaN _ = NaN"
| "fadd _ NaN = NaN"
| "fadd PosInf NegInf = NaN"
| "fadd NegInf PosInf = NaN"
| "fadd PosInf _ = PosInf"
| "fadd _ PosInf = PosInf"
| "fadd NegInf _ = NegInf"
| "fadd _ NegInf = NegInf"

text \<open>The numeric value of an operand of \<open>+\<close>; anything else raises \<open>TypeError\<close>.\<close>

fun to_float :: "pyval \<Rightarrow> py_exception + pyfloat" where
  "to_float (PyBool b) = Inr (Finite (if b then 1 else 0))"
| "to_float (PyInt i) = Inr (Finite (real_of_int i))"
| "to_float (PyFloat f) = Inr f"
| "to_float _ = Inl (TypeError ''unsupported operand type(s) for +'')"

text \<open>
  \<open>sum(vs)\<close>: starts from 0 and adds from the left. The result is only ever divided by a
  length, and \<open>/\<close> gives a float, so the sum is kept as a float.
\<close>

fun py_sum_from :: "pyfloat \<Rightarrow> pyval list \<Rightarrow> py_exception + pyfloat" where
  "py_sum_from acc [] = Inr acc"
| "py_sum_from acc (v # vs) =
     (case to_float v of
        Inl e \<Rightarrow> Inl e
      | Inr f \<Rightarrow> py_sum_from (fadd acc f) vs)"

definition py_sum :: "pyval list \<Rightarrow> py_exception + pyfloat" where
  "py_sum vs = py_sum_from (Finite 0) vs"

text \<open>\<open>x / n\<close> for a float \<open>x\<close> and a length \<open>n\<close>.\<close>

fun py_truediv :: "pyfloat \<Rightarrow> nat \<Rightarrow> py_exception + pyfloat" where
  "py_truediv x 0 = Inl (ZeroDivisionError ''division by zero'')"
| "py_truediv (Finite x) n = Inr (Finite (x / real n))"
| "py_truediv f n = Inr f"

text \<open>
  \<open>sum(vs) / len(vs) if vs else None\<close>, the expression both endpoints use for their
  overall score.
\<close>

definition mean_or_none :: "pyval list \<Rightarrow> py_exception + pyfloat option" where
  "mean_or_none vs =
     (if vs \<noteq> [] then
        (case py_sum vs of
           Inl e \<Rightarrow> Inl e
         | Inr s \<Rightarrow>
            (case py_truediv s (length vs) of
               Inl e \<Rightarrow> Inl e
             | Inr m \<Rightarrow> Inr (Some m)))
      else Inr None)"

section \<open>Configuration and the LLM client selector\<close>

record config =
  LLM_PROVIDER :: string
  OLLAMA_BASE_URL :: string
  OLLAMA_MODEL :: string
  OPENAI_API_KEY :: string

text \<open>
  The two client variants with the arguments the source passes: model, temperature and
  API key for the hosted one; model, base URL and temperature for the local one.
\<close>

datatype llm =
    ChatOpenAI string int string
  | ChatOllama string string int

text \<open>A string is truthy when it is not empty.\<close>

definition get_llm :: "config \<Rightarrow> llm" where
  "get_llm cfg =
     (if LLM_PROVIDER cfg = ''openai'' \<and> OPENAI_API_KEY cfg \<noteq> ''''
      then ChatOpenAI ''gpt-4o-mini'' 0 (OPENAI_API_KEY cfg)
      else ChatOllama (OLLAMA_MODEL cfg) (OLLAMA_BASE_URL cfg) 0)"

fun is_hosted :: "llm \<Rightarrow> bool" where
  "is_hosted (ChatOpenAI _ _ _) = True"
| "is_hosted (ChatOllama _ _ _) = False"

section \<open>Requests and responses\<close>

record evaluation_sample =
  question :: string
  answer :: string
  contexts :: "string list"
  ground_truth :: "string option"

text \<open>
  A single-evaluation request has the fields of a sample and the metric list. The list
  is optional in the schema: an explicit null is accepted and arrives as \<open>None\<close>.
\<close>

record single_evaluation_request = evaluation_sample +
  metrics :: "string list option"

record batch_evaluation_request =
  samples :: "evaluation_sample list"
  batch_metrics :: "string list option"

record evaluation_result =
  result_metrics :: pydict
  overall_score :: "pyfloat option"
  evaluation_time_ms :: int
  timestamp :: string

record batch_evaluation_result =
  results :: "pydict list"
  aggregate :: pydict
  total_samples :: nat
  batch_evaluation_time_ms :: int
  batch_timestamp :: string

record health_response =
  status :: string
  llm_provider :: string
  llm_model :: string
  available_metrics :: "string list"

datatype http_exception = HTTPException nat string

text \<open>The status a handler's outcome is sent with: 200 for a returned response.\<close>

fun status_code :: "http_exception + 'a \<Rightarrow> nat" where
  "status_code (Inl (HTTPException c _)) = c"
| "status_code (Inr _) = 200"

section \<open>Metrics\<close>

datatype metric_class =
    Faithfulness
  | ResponseRelevancy
  | LLMContextPrecisionWithoutReference
  | LLMContextRecall

text \<open>A metric instance: its class and the LLM it is bound to.\<close>

datatype metric = Metric metric_class llm

definition AVAILABLE_METRICS :: "(string \<times> metric_class) list" where
  "AVAILABLE_METRICS =
     [(''faithfulness'', Faithfulness),
      (''answer_relevancy'', ResponseRelevancy),
      (''context_precision'', LLMContextPrecisionWithoutReference),
      (''context_recall'', LLMContextRecall)]"

section \<open>The evaluation library and the effects\<close>

record single_turn_sample =
  user_input :: string
  response :: string
  retrieved_contexts :: "string list"
  reference :: "string option"

text \<open>The result table: column names and one list of cells per row.\<close>

record dataframe =
  df_columns :: "string list"
  df_rows :: "pyval list list"

text \<open>
  What the service cannot decide by itself is a parameter: \<open>evaluate\<close> is the
  library's blocking call followed by \<open>to_pandas\<close> (an exception or the result table),
  \<open>series_mean\<close> is \<open>float(df[name].mean())\<close>, and the clock gives the elapsed
  milliseconds and the ISO timestamp.
\<close>

record env =
  evaluate :: "single_turn_sample list \<Rightarrow> metric list \<Rightarrow> py_exception + dataframe"
  series_mean :: "dataframe \<Rightarrow> string \<Rightarrow> py_exception + pyfloat"
  elapsed_ms :: int
  now_iso :: string

text \<open>What a handler does besides returning: log lines and calls of the library.\<close>

datatype event =
    LogWarning string
  | LogInfo string
  | LogError string
  | EvaluateCall "single_turn_sample list" "metric list"

fun is_evaluate_call :: "event \<Rightarrow> bool" where
  "is_evaluate_call (EvaluateCall _ _) = True"
| "is_evaluate_call _ = False"

text \<open>
  \<open>get_metrics\<close>: the instances of the known names in request order, and a warning
  for each unknown name.
\<close>

fun get_metrics :: "string list \<Rightarrow> llm \<Rightarrow> metric list \<times> event list" where
  "get_metrics [] llm = ([], [])"
| "get_metrics (name # rest) llm =
     (let (ms, evs) = get_metrics rest llm
      in (case map_of AVAILABLE_METRICS name of
            Some metric_class \<Rightarrow> (Metric metric_class llm # ms, evs)
          | None \<Rightarrow> (ms, LogWarning (''Unknown metric: '' @ name) # evs)))"

text \<open>
  \<open>_clean_float\<close> and \<open>_clean_dict\<close> (the names lose their leading underscore here,
  as does \<open>_run_evaluation_sync\<close> below).
\<close>

fun clean_float :: "pyval \<Rightarrow> pyval" where
  "clean_float PyNone = PyNone"
| "clean_float (PyFloat f) = (if isnan f \<or> isinf f then PyNone else PyFloat f)"
| "clean_float v = v"

definition clean_dict :: "pydict \<Rightarrow> pydict" where
  "clean_dict d =
     map (\<lambda>(k, v). (k, if isinstance_int_float v then clean_float v else v)) d"

text \<open>
  \<open>to_dict('records')\<close>: one dict per row, from column name to cell. Building a dict
  stores a repeated key once, with the last value.
\<close>

definition dict_of :: "(string \<times> pyval) list \<Rightarrow> pydict" where
  "dict_of ps = foldl (\<lambda>d (k, v). AList.update k v d) [] ps"

definition to_dict_records :: "dataframe \<Rightarrow> pydict list" where
  "to_dict_records df = map (\<lambda>row. dict_of (zip (df_columns df) row)) (df_rows df)"

text \<open>
  One sample as the library's single-turn record. \<open>s.get("ground_truth")\<close> is tested
  for truth: \<open>None\<close> and the empty string are both false.
\<close>

fun truthy :: "string option \<Rightarrow> bool" where
  "truthy None = False"
| "truthy (Some s) = (s \<noteq> '''')"

definition make_sample :: "evaluation_sample \<Rightarrow> single_turn_sample" where
  "make_sample s =
     (let sample = \<lparr>user_input = question s, response = answer s,
                    retrieved_contexts = contexts s, reference = None\<rparr>
      in if truthy (ground_truth s) then sample\<lparr>reference := ground_truth s\<rparr>
         else sample)"

text \<open>
  The loop over the requested names that fills \<open>aggregate\<close>: a name that is a column
  gets the cleaned mean of its column, any other name is passed over.
\<close>

fun aggregate_loop ::
  "env \<Rightarrow> dataframe \<Rightarrow> string list \<Rightarrow> pydict \<Rightarrow> py_exception + pydict" where
  "aggregate_loop E df [] agg = Inr agg"
| "aggregate_loop E df (metric_name # rest) agg =
     (if metric_name \<in> set (df_columns df) then
        (case series_mean E df metric_name of
           Inl e \<Rightarrow> Inl e
         | Inr mean_val \<Rightarrow>
            aggregate_loop E df rest
              (AList.update metric_name (clean_float (PyFloat mean_val)) agg))
      else aggregate_loop E df rest agg)"

record eval_output =
  scores :: "pydict list"
  out_aggregate :: pydict
  out_evaluation_time_ms :: int

text \<open>
  \<open>_run_evaluation_sync\<close>. Iterating over \<open>None\<close> in \<open>get_metrics\<close> raises
  \<open>TypeError\<close> (its message is shortened here); an empty list of instances raises
  \<open>ValueError\<close> before the library is called. Constructing the LLM client, the
  single-turn records and the dataset is taken to succeed.
\<close>

definition run_evaluation_sync ::
  "env \<Rightarrow> config \<Rightarrow> evaluation_sample list \<Rightarrow> string list option
     \<Rightarrow> (py_exception + eval_output) \<times> event list" where
  "run_evaluation_sync E cfg smpls metric_names =
     (let llm = get_llm cfg;
          eval_samples = map make_sample smpls
      in (case metric_names of
            None \<Rightarrow> (Inl (TypeError ''object is not iterable''), [])
          | Some names \<Rightarrow>
             (let (ms, warnings) = get_metrics names llm
              in if ms = [] then (Inl (ValueError ''No valid metrics specified''), warnings)
                 else
                   (let evs = warnings @ [LogInfo ''Starting RAGAS evaluation'',
                                          EvaluateCall eval_samples ms]
                    in (case evaluate E eval_samples ms of
                          Inl e \<Rightarrow> (Inl e, evs)
                        | Inr result_df \<Rightarrow>
                           (let evs' = evs @ [LogInfo ''RAGAS evaluation completed''];
                                scs = map clean_dict (to_dict_records result_df)
                            in (case aggregate_loop E result_df names [] of
                                  Inl e \<Rightarrow> (Inl e, evs')
                                | Inr agg \<Rightarrow>
                                   (Inr \<lparr>scores = scs, out_aggregate = agg,
                                         out_evaluation_time_ms = elapsed_ms E\<rparr>,
                                    evs'))))))))"

text \<open>\<open>run_evaluation\<close>: the same call, with the failure logged and raised again.\<close>

definition run_evaluation ::
  "env \<Rightarrow> config \<Rightarrow> evaluation_sample list \<Rightarrow> string list option
     \<Rightarrow> (py_exception + eval_output) \<times> event list" where
  "run_evaluation E cfg smpls metric_names =
     (case run_evaluation_sync E cfg smpls metric_names of
        (Inl e, evs) \<Rightarrow> (Inl e, evs @ [LogError ''RAGAS evaluation failed''])
      | (Inr r, evs) \<Rightarrow> (Inr r, evs))"

section \<open>Endpoints\<close>

definition health_check :: "config \<Rightarrow> http_exception + health_response" where
  "health_check cfg =
     Inr \<lparr>status = ''healthy'',
          llm_provider = LLM_PROVIDER cfg,
          llm_model = (if LLM_PROVIDER cfg = ''ollama'' then OLLAMA_MODEL cfg
                       else ''gpt-4o-mini''),
          available_metrics = map fst AVAILABLE_METRICS\<rparr>"

text \<open>
  \<open>k in request.metrics\<close>. The test is only reached after the evaluation returned,
  which it does not for \<open>None\<close> (see \<open>run_evaluation_sync\<close>), so the value given
  for \<open>None\<close> is never used.
\<close>

fun requested :: "string list option \<Rightarrow> string \<Rightarrow> bool" where
  "requested None k = False"
| "requested (Some names) k = (k \<in> set names)"

definition evaluate_single ::
  "env \<Rightarrow> config \<Rightarrow> single_evaluation_request
     \<Rightarrow> (http_exception + evaluation_result) \<times> event list" where
  "evaluate_single E cfg request =
     (let sample = \<lparr>question = question request, answer = answer request,
                    contexts = contexts request, ground_truth = ground_truth request\<rparr>
      in (case run_evaluation E cfg [sample] (metrics request) of
            (Inl e, evs) \<Rightarrow>
              (Inl (HTTPException 500 (str_exc e)),
               evs @ [LogError ''Single evaluation failed''])
          | (Inr result, evs) \<Rightarrow>
              (let scs = (case scores result of [] \<Rightarrow> [] | d # _ \<Rightarrow> d);
                   valid_scores = map snd (filter (\<lambda>(k, v). requested (metrics request) k
                                                     \<and> isinstance_int_float v) scs)
               in (case mean_or_none valid_scores of
                     Inl e \<Rightarrow>
                       (Inl (HTTPException 500 (str_exc e)),
                        evs @ [LogError ''Single evaluation failed''])
                   | Inr overall \<Rightarrow>
                       (Inr \<lparr>result_metrics = scs, overall_score = overall,
                             evaluation_time_ms = out_evaluation_time_ms result,
                             timestamp = now_iso E\<rparr>,
                        evs)))))"

definition evaluate_batch ::
  "env \<Rightarrow> config \<Rightarrow> batch_evaluation_request
     \<Rightarrow> (http_exception + batch_evaluation_result) \<times> event list" where
  "evaluate_batch E cfg request =
     (if length (samples request) > 100 then
        (Inl (HTTPException 400 ''Maximum 100 samples per batch''), [])
      else if length (samples request) = 0 then
        (Inl (HTTPException 400 ''At least one sample required''), [])
      else
        (case run_evaluation E cfg (samples request) (batch_metrics request) of
           (Inl e, evs) \<Rightarrow>
             (Inl (HTTPException 500 (str_exc e)),
              evs @ [LogError ''Batch evaluation failed''])
         | (Inr result, evs) \<Rightarrow>
             (let agg = out_aggregate result;
                  valid_values = filter (\<lambda>v. v \<noteq> PyNone) (map snd agg)
              in (case mean_or_none valid_values of
                    Inl e \<Rightarrow>
                      (Inl (HTTPException 500 (str_exc e)),
                       evs @ [LogError ''Batch evaluation failed''])
                  | Inr overall \<Rightarrow>
                      (Inr \<lparr>results = scores result,
                            aggregate = AList.update ''overall'' (opt_val overall) agg,
                            total_samples = length (samples request),
                            batch_evaluation_time_ms = out_evaluation_time_ms result,
                            batch_timestamp = now_iso E\<rparr>,
                       evs)))))"

section \<open>Notions of the specification\<close>

text \<open>
  An indeterminate score is a float that is NaN or infinite; the specification has it
  replaced by the absence marker and everything else left alone.
\<close>

fun nonfinite :: "pyval \<Rightarrow> bool" where
  "nonfinite (PyFloat f) = (isnan f \<or> isinf f)"
| "nonfinite _ = False"

definition null_if_nonfinite :: "pyval \<Rightarrow> pyval" where
  "null_if_nonfinite v = (if nonfinite v then PyNone else v)"

text \<open>
  The number a value stands for, if it is one: a finite float, an int, or a bool (which
  Python counts as 0 or 1). The absence marker, text and lists are not numbers.
\<close>

fun number :: "pyval \<Rightarrow> real option" where
  "number (PyBool b) = Some (if b then 1 else 0)"
| "number (PyInt i) = Some (real_of_int i)"
| "number (PyFloat (Finite x)) = Some x"
| "number _ = None"

definition number_at :: "pydict \<Rightarrow> string \<Rightarrow> real option" where
  "number_at d k = (case map_of d k of None \<Rightarrow> None | Some v \<Rightarrow> number v)"

text \<open>
  The mean as the specification words it: over the keys of \<open>d\<close> that lie in the set
  \<open>S\<close> and carry a number, the sum of the numbers divided by how many there are;
  absent when there is none.
\<close>

definition spec_mean :: "pydict \<Rightarrow> string set \<Rightarrow> pyfloat option" where
  "spec_mean d S =
     (let present = {k \<in> fst ` set d. k \<in> S \<and> number_at d k \<noteq> None}
      in if present = {} then None
         else Some (Finite ((\<Sum>k\<in>present. the (number_at d k)) / real (card present))))"

text \<open>What an entry of \<open>aggregate\<close> can be: absent or a finite float.\<close>

definition mean_entry :: "pyval \<Rightarrow> bool" where
  "mean_entry v = (v = PyNone \<or> (\<exists>x. v = PyFloat (Finite x)))"

text \<open>The four identifiers of the catalog.\<close>

definition catalog :: "string set" where
  "catalog = {''faithfulness'', ''answer_relevancy'', ''context_precision'', ''context_recall''}"

section \<open>Example inputs\<close>

text \<open>
  A stub of the library for the examples: the table has the question column and one
  column per metric instance, and every score is the same given value.
\<close>

fun metric_column :: "metric \<Rightarrow> string" where
  "metric_column (Metric Faithfulness _) = ''faithfulness''"
| "metric_column (Metric ResponseRelevancy _) = ''answer_relevancy''"
| "metric_column (Metric LLMContextPrecisionWithoutReference _) =
     ''llm_context_precision_without_reference''"
| "metric_column (Metric LLMContextRecall _) = ''context_recall''"

definition stub_table :: "pyval \<Rightarrow> single_turn_sample list \<Rightarrow> metric list \<Rightarrow> dataframe" where
  "stub_table score ds ms =
     \<lparr>df_columns = ''user_input'' # map metric_column ms,
      df_rows = map (\<lambda>s. PyStr (user_input s) # map (\<lambda>m. score) ms) ds\<rparr>"

definition stub_env :: "pyfloat \<Rightarrow> env" where
  "stub_env f =
     \<lparr>evaluate = (\<lambda>ds ms. Inr (stub_table (PyFloat f) ds ms)),
      series_mean = (\<lambda>df name. Inr f),
      elapsed_ms = 0,
      now_iso = ''2024-01-01T00:00:00''\<rparr>"


definition local_config :: config where
  "local_config =
     \<lparr>LLM_PROVIDER = ''ollama'', OLLAMA_BASE_URL = ''http://localhost:11434'',
      OLLAMA_MODEL = ''llama3.2'', OPENAI_API_KEY = ''''\<rparr>"

definition example_sample :: evaluation_sample where
  "example_sample =
     \<lparr>question = ''What is the capital of France?'', answer = ''Paris'',
      contexts = [''Paris is the capital of France.''], ground_truth = None\<rparr>"

definition example_request :: "string list \<Rightarrow> single_evaluation_request" where
  "example_request names =
     \<lparr>question = ''What is the capital of France?'', answer = ''Paris'',
      contexts = [''Paris is the capital of France.''], ground_truth = None,
      metrics = Some names\<rparr>"

definition example_batch :: "nat \<Rightarrow> string list \<Rightarrow> batch_evaluation_request" where
  "example_batch n names = \<lparr>samples = replicate n example_sample, batch_metrics = Some names\<rparr>"

section \<open>Cleaning\<close>

lemma clean_float_eq: "clean_float v = null_if_nonfinite v"
  by (cases v rule: clean_float.cases) (simp_all add: null_if_nonfinite_def)

lemma clean_dict_eq: "clean_dict d = map (\<lambda>(k, v). (k, null_if_nonfinite v)) d"
proof -
  have "(if isinstance_int_float v then clean_float v else v) = null_if_nonfinite v" for v
    by (cases v rule: clean_float.cases) (simp_all add: null_if_nonfinite_def)
  then show ?thesis by (simp add: clean_dict_def)
qed

lemma clean_dict_keys: "map fst (clean_dict d) = map fst d"
  by (simp add: clean_dict_def case_prod_unfold comp_def)

lemma null_if_nonfinite_finite: "\<not> nonfinite (null_if_nonfinite v)"
  by (simp add: null_if_nonfinite_def)

lemma clean_dict_finite: "(k, v) \<in> set (clean_dict d) \<Longrightarrow> \<not> nonfinite v"
  by (auto simp: clean_dict_eq null_if_nonfinite_finite)

lemma clean_float_mean_entry: "mean_entry (clean_float (PyFloat f))"
  by (cases f) (simp_all add: mean_entry_def)

section \<open>Dicts have one entry per key\<close>

lemma foldl_update_distinct:
  "distinct (map fst d) \<Longrightarrow>
   distinct (map fst (foldl (\<lambda>d (k, v). AList.update k v d) d ps))"
  by (induction ps arbitrary: d) (auto simp: distinct_update)

lemma dict_of_distinct: "distinct (map fst (dict_of ps))"
  unfolding dict_of_def by (rule foldl_update_distinct) simp

lemma set_update_cases:
  "(k', v') \<in> set (AList.update k v d) \<Longrightarrow> (k', v') = (k, v) \<or> (k', v') \<in> set d"
  by (induction d) (auto split: if_splits)

section \<open>Sums and means of numbers\<close>

lemma number_iff_isinstance:
  "\<not> nonfinite v \<Longrightarrow> number v \<noteq> None \<longleftrightarrow> isinstance_int_float v"
  by (cases v rule: number.cases) auto

lemma py_sum_from_numbers:
  "\<forall>v \<in> set vs. number v \<noteq> None
   \<Longrightarrow> py_sum_from (Finite a) vs = Inr (Finite (a + sum_list (map (the \<circ> number) vs)))"
proof (induction vs arbitrary: a)
  case Nil
  then show ?case by simp
next
  case (Cons v vs)
  then obtain x where x: "number v = Some x" by auto
  then have "to_float v = Inr (Finite x)"
    by (cases v rule: number.cases) auto
  with Cons x show ?case by (simp add: add.assoc)
qed

lemma mean_or_none_numbers:
  assumes "\<forall>v \<in> set vs. number v \<noteq> None"
  shows "mean_or_none vs =
           Inr (if vs = [] then None
                else Some (Finite (sum_list (map (the \<circ> number) vs) / real (length vs))))"
proof (cases vs)
  case Nil
  then show ?thesis by (simp add: mean_or_none_def)
next
  case (Cons v ws)
  then obtain n where n: "length vs = Suc n" by simp
  from assms have "py_sum vs = Inr (Finite (sum_list (map (the \<circ> number) vs)))"
    unfolding py_sum_def using py_sum_from_numbers [of vs 0] by simp
  with Cons n show ?thesis by (simp add: mean_or_none_def)
qed

text \<open>The mean over a set of keys is the mean over the list of entries of a dict.\<close>

lemma spec_mean_list:
  assumes d: "distinct (map fst d)"
  shows "spec_mean d S =
           (let vs = map snd (filter (\<lambda>(k, v). k \<in> S \<and> number v \<noteq> None) d)
            in if vs = [] then None
               else Some (Finite (sum_list (map (the \<circ> number) vs) / real (length vs))))"
proof -
  define fd where "fd = filter (\<lambda>(k, v). k \<in> S \<and> number v \<noteq> None) d"
  define present where "present = {k \<in> fst ` set d. k \<in> S \<and> number_at d k \<noteq> None}"
  have at: "number_at d k = number v" if "(k, v) \<in> set d" for k v
    using that d by (simp add: number_at_def)
  have dfd: "distinct (map fst fd)"
    unfolding fd_def using d by (rule distinct_map_filter)
  have pres: "present = set (map fst fd)"
    unfolding present_def fd_def using at by (auto simp: image_iff)
  have card: "card present = length fd"
    using pres dfd distinct_card [of "map fst fd"] by simp
  have "(\<Sum>k\<in>present. the (number_at d k))
          = sum_list (map (\<lambda>k. the (number_at d k)) (map fst fd))"
    unfolding pres using dfd by (rule sum.distinct_set_conv_list)
  also have "\<dots> = sum_list (map (the \<circ> number) (map snd fd))"
  proof -
    have "map (\<lambda>k. the (number_at d k)) (map fst fd) = map (the \<circ> number) (map snd fd)"
      unfolding fd_def using at by (auto simp: comp_def)
    then show ?thesis by (rule arg_cong)
  qed
  finally have sum:
    "(\<Sum>k\<in>present. the (number_at d k)) = sum_list (map (the \<circ> number) (map snd fd))" .
  have empty: "present = {} \<longleftrightarrow> fd = []"
    using pres by simp
  show ?thesis
    unfolding spec_mean_def Let_def present_def [symmetric] fd_def [symmetric]
    using sum card empty by simp
qed

lemma spec_mean_None:
  "spec_mean d S = None \<longleftrightarrow> (\<forall>k \<in> S. number_at d k = None)"
proof -
  have "number_at d k = None" if "k \<notin> fst ` set d" for k
    using that map_of_eq_None_iff [of d k] by (simp add: number_at_def)
  then show ?thesis
    unfolding spec_mean_def Let_def by (auto split: if_splits)
qed

lemma single_overall:
  assumes "distinct (map fst d)" and "\<forall>(k, v) \<in> set d. \<not> nonfinite v"
  shows "mean_or_none (map snd (filter (\<lambda>(k, v). k \<in> S \<and> isinstance_int_float v) d))
           = Inr (spec_mean d S)"
proof -
  let ?vs = "map snd (filter (\<lambda>(k, v). k \<in> S \<and> number v \<noteq> None) d)"
  have same: "filter (\<lambda>(k, v). k \<in> S \<and> isinstance_int_float v) d
                = filter (\<lambda>(k, v). k \<in> S \<and> number v \<noteq> None) d"
  proof (rule filter_cong [OF refl])
    fix p assume p: "p \<in> set d"
    obtain k v where kv: "p = (k, v)" by (cases p)
    with p assms(2) have "\<not> nonfinite v" by auto
    then have "number v \<noteq> None \<longleftrightarrow> isinstance_int_float v"
      by (rule number_iff_isinstance)
    with kv show "(case p of (k, v) \<Rightarrow> k \<in> S \<and> isinstance_int_float v)
                  = (case p of (k, v) \<Rightarrow> k \<in> S \<and> number v \<noteq> None)"
      by simp
  qed
  have "\<forall>v \<in> set ?vs. number v \<noteq> None" by auto
  then have "mean_or_none ?vs =
      Inr (if ?vs = [] then None
           else Some (Finite (sum_list (map (the \<circ> number) ?vs) / real (length ?vs))))"
    by (rule mean_or_none_numbers)
  also have "\<dots> = Inr (spec_mean d S)"
    using spec_mean_list [OF assms(1), of S] by (simp add: Let_def)
  finally show ?thesis
    using same by simp
qed

lemma mean_entry_filter:
  assumes "\<forall>(k, v) \<in> set agg. mean_entry v"
  shows "filter (\<lambda>v. v \<noteq> PyNone) (map snd agg)
           = map snd (filter (\<lambda>(k, v). k \<in> UNIV \<and> number v \<noteq> None) agg)"
  using assms by (induction agg) (auto simp: mean_entry_def)

lemma batch_overall:
  assumes "distinct (map fst agg)" and "\<forall>(k, v) \<in> set agg. mean_entry v"
  shows "mean_or_none (filter (\<lambda>v. v \<noteq> PyNone) (map snd agg)) = Inr (spec_mean agg UNIV)"
proof -
  let ?vs = "map snd (filter (\<lambda>(k, v). k \<in> UNIV \<and> number v \<noteq> None) agg)"
  have "\<forall>v \<in> set ?vs. number v \<noteq> None" by auto
  then have "mean_or_none ?vs =
      Inr (if ?vs = [] then None
           else Some (Finite (sum_list (map (the \<circ> number) ?vs) / real (length ?vs))))"
    by (rule mean_or_none_numbers)
  also have "\<dots> = Inr (spec_mean agg UNIV)"
    using spec_mean_list [OF assms(1), of UNIV] by (simp add: Let_def)
  finally show ?thesis
    using mean_entry_filter [OF assms(2)] by simp
qed

section \<open>The metric factory\<close>

lemma known_metric_iff: "map_of AVAILABLE_METRICS n \<noteq> None \<longleftrightarrow> n \<in> catalog"
  by (simp add: AVAILABLE_METRICS_def catalog_def)

lemma get_metrics_warnings:
  "snd (get_metrics names llm)
     = map (\<lambda>n. LogWarning (''Unknown metric: '' @ n)) (filter (\<lambda>n. n \<notin> catalog) names)"
  by (induction names)
     (auto simp: known_metric_iff [symmetric] split: prod.splits option.splits)

lemma get_metrics_instances:
  "fst (get_metrics names llm)
     = map (\<lambda>n. Metric (the (map_of AVAILABLE_METRICS n)) llm)
         (filter (\<lambda>n. n \<in> catalog) names)"
  by (induction names)
     (auto simp: known_metric_iff [symmetric] split: prod.splits option.splits)

lemma get_metrics_empty_iff:
  "fst (get_metrics names llm) = [] \<longleftrightarrow> (\<forall>n \<in> set names. n \<notin> catalog)"
  by (simp add: get_metrics_instances filter_empty_conv)

section \<open>The aggregate loop\<close>

lemma aggregate_loop_distinct:
  "aggregate_loop E df names agg = Inr agg' \<Longrightarrow> distinct (map fst agg)
   \<Longrightarrow> distinct (map fst agg')"
  by (induction names arbitrary: agg)
     (auto simp: distinct_update split: if_splits sum.splits)

lemma aggregate_loop_values:
  "aggregate_loop E df names agg = Inr agg' \<Longrightarrow> \<forall>(k, v) \<in> set agg. mean_entry v
   \<Longrightarrow> \<forall>(k, v) \<in> set agg'. mean_entry v"
proof (induction names arbitrary: agg)
  case Nil
  then show ?case by simp
next
  case (Cons n names)
  show ?case
  proof (cases "n \<in> set (df_columns df)")
    case False
    with Cons show ?thesis by simp
  next
    case True
    with Cons.prems(1) obtain m where
      rest: "aggregate_loop E df names (AList.update n (clean_float (PyFloat m)) agg) = Inr agg'"
      by (auto split: sum.splits)
    have "\<forall>(k, v) \<in> set (AList.update n (clean_float (PyFloat m)) agg). mean_entry v"
      using Cons.prems(2) clean_float_mean_entry [of m]
      by (auto dest!: set_update_cases)
    with Cons.IH [OF rest] show ?thesis .
  qed
qed

lemma aggregate_loop_keys:
  "aggregate_loop E df names agg = Inr agg'
   \<Longrightarrow> fst ` set agg' = fst ` set agg \<union> {n \<in> set names. n \<in> set (df_columns df)}"
proof (induction names arbitrary: agg)
  case Nil
  then show ?case by simp
next
  case (Cons n names)
  show ?case
  proof (cases "n \<in> set (df_columns df)")
    case False
    with Cons show ?thesis by auto
  next
    case True
    with Cons.prems obtain m where
      rest: "aggregate_loop E df names (AList.update n (clean_float (PyFloat m)) agg) = Inr agg'"
      by (auto split: sum.splits)
    from Cons.IH [OF rest] True show ?thesis
      by (auto simp: dom_update)
  qed
qed

lemma aggregate_loop_removeAll:
  "m \<notin> set (df_columns df)
   \<Longrightarrow> aggregate_loop E df (removeAll m names) agg = aggregate_loop E df names agg"
  by (induction names arbitrary: agg) (auto split: sum.splits)

lemma aggregate_loop_other:
  "aggregate_loop E df names agg = Inr agg' \<Longrightarrow> n \<notin> set names \<or> n \<notin> set (df_columns df)
   \<Longrightarrow> map_of agg' n = map_of agg n"
proof (induction names arbitrary: agg)
  case Nil
  then show ?case by simp
next
  case (Cons a names)
  show ?case
  proof (cases "a \<in> set (df_columns df)")
    case False
    with Cons show ?thesis by auto
  next
    case True
    with Cons.prems(1) obtain m where
      rest: "aggregate_loop E df names (AList.update a (clean_float (PyFloat m)) agg) = Inr agg'"
      by (auto split: sum.splits)
    from Cons.prems(2) True have "n \<noteq> a" and "n \<notin> set names \<or> n \<notin> set (df_columns df)"
      by auto
    with Cons.IH [OF rest] show ?thesis
      by (simp add: update_conv')
  qed
qed

lemma aggregate_loop_lookup:
  "aggregate_loop E df names agg = Inr agg' \<Longrightarrow> n \<in> set names \<Longrightarrow> n \<in> set (df_columns df)
   \<Longrightarrow> \<exists>m. series_mean E df n = Inr m \<and> map_of agg' n = Some (clean_float (PyFloat m))"
proof (induction names arbitrary: agg)
  case Nil
  then show ?case by simp
next
  case (Cons a names)
  show ?case
  proof (cases "a \<in> set (df_columns df)")
    case False
    with Cons.prems have "aggregate_loop E df names agg = Inr agg'" and "n \<in> set names"
      by auto
    then show ?thesis using Cons.prems(3) by (rule Cons.IH)
  next
    case True
    with Cons.prems(1) obtain m where
      m: "series_mean E df a = Inr m" and
      rest: "aggregate_loop E df names (AList.update a (clean_float (PyFloat m)) agg) = Inr agg'"
      by (auto split: sum.splits)
    show ?thesis
    proof (cases "n \<in> set names")
      case True
      with rest show ?thesis using Cons.prems(3) by (rule Cons.IH)
    next
      case False
      with Cons.prems(2) have na: "n = a" by simp
      from aggregate_loop_other [OF rest] False
      have "map_of agg' n = map_of (AList.update a (clean_float (PyFloat m)) agg) n"
        by simp
      with na m show ?thesis by (simp add: update_conv' del: clean_float.simps)
    qed
  qed
qed

lemma aggregate_loop_succeeds:
  "\<forall>n \<in> set names. n \<in> set (df_columns df) \<longrightarrow> (\<exists>m. series_mean E df n = Inr m)
   \<Longrightarrow> \<exists>agg'. aggregate_loop E df names agg = Inr agg'"
  by (induction names arbitrary: agg) auto

section \<open>What a returned evaluation went through\<close>

lemma run_evaluation_sync_Inr:
  assumes "run_evaluation_sync E cfg smpls mn = (Inr out, evs)"
  shows "\<exists>names df. mn = Some names
           \<and> fst (get_metrics names (get_llm cfg)) \<noteq> []
           \<and> evaluate E (map make_sample smpls) (fst (get_metrics names (get_llm cfg))) = Inr df
           \<and> scores out = map clean_dict (to_dict_records df)
           \<and> aggregate_loop E df names [] = Inr (out_aggregate out)
           \<and> out_evaluation_time_ms out = elapsed_ms E
           \<and> evs = snd (get_metrics names (get_llm cfg))
                    @ [LogInfo ''Starting RAGAS evaluation'',
                       EvaluateCall (map make_sample smpls)
                         (fst (get_metrics names (get_llm cfg))),
                       LogInfo ''RAGAS evaluation completed'']"
  using assms unfolding run_evaluation_sync_def Let_def
  by (auto split: option.splits prod.splits if_splits sum.splits)

lemma run_evaluation_Inr:
  "run_evaluation E cfg smpls mn = (Inr out, evs)
   \<longleftrightarrow> run_evaluation_sync E cfg smpls mn = (Inr out, evs)"
  unfolding run_evaluation_def
  by (auto split: prod.splits sum.splits)

lemma run_evaluation_Inl:
  "run_evaluation E cfg smpls mn = (Inl e, evs)
   \<longleftrightarrow> (\<exists>evs'. run_evaluation_sync E cfg smpls mn = (Inl e, evs')
          \<and> evs = evs' @ [LogError ''RAGAS evaluation failed''])"
  unfolding run_evaluation_def
  by (auto split: prod.splits sum.splits)

lemma evaluate_single_Inr:
  assumes "evaluate_single E cfg request = (Inr res, evs)"
  shows "\<exists>out. run_evaluation E cfg
                 [\<lparr>question = question request, answer = answer request,
                   contexts = contexts request, ground_truth = ground_truth request\<rparr>]
                 (metrics request) = (Inr out, evs)
           \<and> result_metrics res = (case scores out of [] \<Rightarrow> [] | d # _ \<Rightarrow> d)
           \<and> mean_or_none (map snd (filter (\<lambda>(k, v). requested (metrics request) k
                                                    \<and> isinstance_int_float v)
                                      (result_metrics res)))
               = Inr (overall_score res)
           \<and> evaluation_time_ms res = out_evaluation_time_ms out
           \<and> timestamp res = now_iso E"
  using assms unfolding evaluate_single_def Let_def
  by (auto split: prod.splits sum.splits)

lemma evaluate_batch_Inr:
  assumes "evaluate_batch E cfg request = (Inr res, evs)"
  shows "\<exists>out. run_evaluation E cfg (samples request) (batch_metrics request) = (Inr out, evs)
           \<and> 1 \<le> length (samples request) \<and> length (samples request) \<le> 100
           \<and> results res = scores out
           \<and> (\<exists>overall. mean_or_none (filter (\<lambda>v. v \<noteq> PyNone) (map snd (out_aggregate out)))
                           = Inr overall
                  \<and> aggregate res = AList.update ''overall'' (opt_val overall) (out_aggregate out))
           \<and> total_samples res = length (samples request)
           \<and> batch_evaluation_time_ms res = out_evaluation_time_ms out
           \<and> batch_timestamp res = now_iso E"
  using assms unfolding evaluate_batch_def Let_def
  by (auto simp: Suc_le_eq split: prod.splits sum.splits if_splits)

lemma first_record_clean:
  assumes "d = (case map clean_dict (to_dict_records df) of [] \<Rightarrow> [] | r # _ \<Rightarrow> r)"
  shows "distinct (map fst d) \<and> (\<forall>(k, v) \<in> set d. \<not> nonfinite v)"
proof (cases "to_dict_records df")
  case Nil
  with assms show ?thesis by simp
next
  case (Cons r rs)
  with assms have d: "d = clean_dict r" by simp
  from Cons have "r \<in> set (to_dict_records df)" by simp
  then obtain row where "r = dict_of (zip (df_columns df) row)"
    by (auto simp: to_dict_records_def)
  then have "distinct (map fst r)" by (simp add: dict_of_distinct)
  with d show ?thesis
    by (auto simp: clean_dict_keys dest: clean_dict_finite)
qed

section \<open>When an evaluation returns\<close>

lemma run_evaluation_returns:
  assumes known: "\<exists>n \<in> set names. n \<in> catalog"
    and lib: "evaluate E (map make_sample smpls) (fst (get_metrics names (get_llm cfg))) = Inr df"
    and means: "\<forall>n \<in> set names. n \<in> set (df_columns df) \<longrightarrow> (\<exists>m. series_mean E df n = Inr m)"
  shows "\<exists>agg. aggregate_loop E df names [] = Inr agg
           \<and> run_evaluation E cfg smpls (Some names)
               = (Inr \<lparr>scores = map clean_dict (to_dict_records df), out_aggregate = agg,
                       out_evaluation_time_ms = elapsed_ms E\<rparr>,
                  snd (get_metrics names (get_llm cfg))
                  @ [LogInfo ''Starting RAGAS evaluation'',
                     EvaluateCall (map make_sample smpls)
                       (fst (get_metrics names (get_llm cfg))),
                     LogInfo ''RAGAS evaluation completed''])"
proof -
  from aggregate_loop_succeeds [OF means] obtain agg where
    agg: "aggregate_loop E df names [] = Inr agg" by blast
  from known have ne: "fst (get_metrics names (get_llm cfg)) \<noteq> []"
    by (simp add: get_metrics_empty_iff)
  obtain ms ws where g: "get_metrics names (get_llm cfg) = (ms, ws)"
    by (cases "get_metrics names (get_llm cfg)")
  with ne lib agg show ?thesis
    by (simp add: run_evaluation_def run_evaluation_sync_def Let_def)
qed

lemma evaluate_single_returns:
  assumes names: "metrics request = Some names"
    and known: "\<exists>n \<in> set names. n \<in> catalog"
    and lib: "evaluate E
                [make_sample \<lparr>question = question request, answer = answer request,
                    contexts = contexts request, ground_truth = ground_truth request\<rparr>]
                (fst (get_metrics names (get_llm cfg))) = Inr df"
    and means: "\<forall>n \<in> set names. n \<in> set (df_columns df) \<longrightarrow> (\<exists>m. series_mean E df n = Inr m)"
  shows "\<exists>res evs. evaluate_single E cfg request = (Inr res, evs)
           \<and> result_metrics res
               = (case to_dict_records df of [] \<Rightarrow> []
                  | r # _ \<Rightarrow> map (\<lambda>(k, v). (k, null_if_nonfinite v)) r)"
proof -
  let ?s = "\<lparr>question = question request, answer = answer request,
             contexts = contexts request, ground_truth = ground_truth request\<rparr>"
  from lib have lib': "evaluate E (map make_sample [?s]) (fst (get_metrics names (get_llm cfg))) = Inr df"
    by simp
  from run_evaluation_returns [OF known lib' means] obtain agg evs where
    run: "run_evaluation E cfg [?s] (Some names)
            = (Inr \<lparr>scores = map clean_dict (to_dict_records df), out_aggregate = agg,
                    out_evaluation_time_ms = elapsed_ms E\<rparr>, evs)"
    by blast
  define d where "d = (case map clean_dict (to_dict_records df) of [] \<Rightarrow> [] | r # _ \<Rightarrow> r)"
  then have "distinct (map fst d) \<and> (\<forall>(k, v) \<in> set d. \<not> nonfinite v)"
    by (rule first_record_clean)
  then have mean: "mean_or_none (map snd (filter (\<lambda>(k, v). k \<in> set names \<and> isinstance_int_float v) d))
               = Inr (spec_mean d (set names))"
    by (intro single_overall) auto
  have d': "d = (case to_dict_records df of [] \<Rightarrow> []
                 | r # _ \<Rightarrow> map (\<lambda>(k, v). (k, null_if_nonfinite v)) r)"
    unfolding d_def by (simp add: clean_dict_eq split: list.splits)
  from run mean names d' show ?thesis
    unfolding evaluate_single_def Let_def d_def
    by simp
qed

lemma evaluate_batch_returns:
  assumes size: "1 \<le> length (samples request)" "length (samples request) \<le> 100"
    and names: "batch_metrics request = Some names"
    and known: "\<exists>n \<in> set names. n \<in> catalog"
    and lib: "evaluate E (map make_sample (samples request))
                (fst (get_metrics names (get_llm cfg))) = Inr df"
    and means: "\<forall>n \<in> set names. n \<in> set (df_columns df) \<longrightarrow> (\<exists>m. series_mean E df n = Inr m)"
  shows "\<exists>res evs. evaluate_batch E cfg request = (Inr res, evs)
           \<and> results res
               = map (map (\<lambda>(k, v). (k, null_if_nonfinite v))) (to_dict_records df)
           \<and> (\<forall>n m. n \<in> set names \<and> n \<in> set (df_columns df) \<and> n \<noteq> ''overall''
                      \<and> series_mean E df n = Inr m
                  \<longrightarrow> map_of (aggregate res) n = Some (null_if_nonfinite (PyFloat m)))"
proof -
  from run_evaluation_returns [OF known lib means] obtain agg evs where
    loop: "aggregate_loop E df names [] = Inr agg" and
    run: "run_evaluation E cfg (samples request) (Some names)
            = (Inr \<lparr>scores = map clean_dict (to_dict_records df), out_aggregate = agg,
                    out_evaluation_time_ms = elapsed_ms E\<rparr>, evs)"
    by blast
  have "distinct (map fst agg)"
    using aggregate_loop_distinct [OF loop] by simp
  moreover have "\<forall>(k, v) \<in> set agg. mean_entry v"
    using aggregate_loop_values [OF loop] by simp
  ultimately have mean: "mean_or_none (filter (\<lambda>v. v \<noteq> PyNone) (map snd agg))
                     = Inr (spec_mean agg UNIV)"
    by (rule batch_overall)
  have sc: "map clean_dict (to_dict_records df)
              = map (map (\<lambda>(k, v). (k, null_if_nonfinite v))) (to_dict_records df)"
    by (simp add: clean_dict_eq)
  have look: "map_of agg n = Some (null_if_nonfinite (PyFloat m))"
    if "n \<in> set names" "n \<in> set (df_columns df)" "series_mean E df n = Inr m" for n m
    using aggregate_loop_lookup [OF loop that(1,2)] that(3) by (simp add: clean_float_eq)
  from size have sz: "\<not> 100 < length (samples request)" "samples request \<noteq> []"
    by auto
  show ?thesis
    unfolding evaluate_batch_def Let_def
    using sz names run mean sc look
    by (simp add: update_conv')
qed

section \<open>What a handler leaves in the trace\<close>

lemma get_metrics_no_call: "ev \<in> set (snd (get_metrics names llm)) \<Longrightarrow> \<not> is_evaluate_call ev"
  by (auto simp: get_metrics_warnings)



lemma run_evaluation_call_args:
  assumes "EvaluateCall ds ms \<in> set (snd (run_evaluation E cfg smpls mn))"
  shows "ds = map make_sample smpls"
proof (cases mn)
  case None
  with assms show ?thesis
    by (simp add: run_evaluation_def run_evaluation_sync_def)
next
  case (Some names)
  obtain ms' ws where g: "get_metrics names (get_llm cfg) = (ms', ws)"
    by (cases "get_metrics names (get_llm cfg)")
  have "EvaluateCall ds ms \<notin> set ws"
    using get_metrics_no_call [of "EvaluateCall ds ms" names "get_llm cfg"] g by auto
  with assms Some g show ?thesis
    by (auto simp: run_evaluation_def run_evaluation_sync_def Let_def
             split: sum.splits if_splits)
qed

section \<open>Requested names that get no instance\<close>










section \<open>Unfolding the model on the examples\<close>

lemmas model_defs = evaluate_single_def evaluate_batch_def run_evaluation_def
  run_evaluation_sync_def get_llm_def make_sample_def stub_env_def stub_table_def
  to_dict_records_def dict_of_def clean_dict_def mean_or_none_def py_sum_def
  AVAILABLE_METRICS_def local_config_def example_sample_def example_request_def
  example_batch_def Let_def

section \<open>C1: the overall score of a single evaluation\<close>

text \<open>
  C1. Whenever the single-evaluation endpoint returns a response, the request carried a
  metric list, and \<open>overall_score\<close> is the arithmetic mean of the returned metric values
  at the requested names, not counting absent values (nor the text the table echoes,
  which is no score); it is absent exactly when no requested name carries a number.
\<close>

theorem evaluate_single_overall_mean:
  assumes "evaluate_single E cfg request = (Inr res, evs)"
  shows "\<exists>names. metrics request = Some names
           \<and> overall_score res = spec_mean (result_metrics res) (set names)
           \<and> (overall_score res = None
                \<longleftrightarrow> (\<forall>k \<in> set names. number_at (result_metrics res) k = None))"
proof -
  from evaluate_single_Inr [OF assms] obtain out where
    run: "run_evaluation E cfg
            [\<lparr>question = question request, answer = answer request,
              contexts = contexts request, ground_truth = ground_truth request\<rparr>]
            (metrics request) = (Inr out, evs)"
    and rm: "result_metrics res = (case scores out of [] \<Rightarrow> [] | d # _ \<Rightarrow> d)"
    and mean: "mean_or_none (map snd (filter (\<lambda>(k, v). requested (metrics request) k
                                                       \<and> isinstance_int_float v)
                                         (result_metrics res)))
                 = Inr (overall_score res)"
    by blast
  from run have "run_evaluation_sync E cfg
            [\<lparr>question = question request, answer = answer request,
              contexts = contexts request, ground_truth = ground_truth request\<rparr>]
            (metrics request) = (Inr out, evs)"
    by (simp add: run_evaluation_Inr)
  from run_evaluation_sync_Inr [OF this] obtain names df where
    names: "metrics request = Some names"
    and sc: "scores out = map clean_dict (to_dict_records df)"
    by blast
  from rm sc have "distinct (map fst (result_metrics res))
                   \<and> (\<forall>(k, v) \<in> set (result_metrics res). \<not> nonfinite v)"
    by (intro first_record_clean) simp
  then have "mean_or_none (map snd (filter (\<lambda>(k, v). k \<in> set names \<and> isinstance_int_float v)
                                      (result_metrics res)))
               = Inr (spec_mean (result_metrics res) (set names))"
    by (intro single_overall) auto
  with mean names have "overall_score res = spec_mean (result_metrics res) (set names)"
    by simp
  with names show ?thesis
    by (simp add: spec_mean_None)
qed

text \<open>
  The stub scores 1/2; of the two requested names one is unknown and is no column. The
  response has the overall score 1/2, the mean over the one requested name with a score.
\<close>

theorem evaluate_single_overall_mean_witness:
  "(let R = evaluate_single (stub_env (Finite (1/2))) local_config
              (example_request [''faithfulness'', ''bogus''])
    in \<not> isl (fst R)
       \<and> overall_score (projr (fst R))
           = spec_mean (result_metrics (projr (fst R))) (set [''faithfulness'', ''bogus''])
       \<and> overall_score (projr (fst R)) = Some (Finite (1/2)))"
proof -
  let ?R = "evaluate_single (stub_env (Finite (1/2))) local_config
              (example_request [''faithfulness'', ''bogus''])"
  have "\<exists>res evs. ?R = (Inr res, evs)"
    by (simp add: model_defs)
  then obtain res evs where h: "?R = (Inr res, evs)" by blast
  from evaluate_single_overall_mean [OF h]
  have "overall_score res = spec_mean (result_metrics res) (set [''faithfulness'', ''bogus''])"
    by (simp add: example_request_def)
  moreover have "overall_score (projr (fst ?R)) = Some (Finite (1/2))"
    by (simp add: model_defs)
  ultimately show ?thesis
    using h by (simp add: Let_def)
qed

section \<open>C2: the overall value of a batch\<close>

text \<open>
  C2. Whenever the batch endpoint returns a response, the entry \<open>overall\<close> of its
  aggregate is the arithmetic mean of the per-metric means the evaluation produced, not
  counting the absent ones, and it is the absence marker exactly when every per-metric
  mean is absent. The other entries of the aggregate are the per-metric means themselves.
\<close>

theorem evaluate_batch_overall_mean:
  assumes "evaluate_batch E cfg request = (Inr res, evs)"
  shows "\<exists>out. run_evaluation E cfg (samples request) (batch_metrics request) = (Inr out, evs)
           \<and> map_of (aggregate res) ''overall''
               = Some (opt_val (spec_mean (out_aggregate out) UNIV))
           \<and> (\<forall>k. k \<noteq> ''overall''
                  \<longrightarrow> map_of (aggregate res) k = map_of (out_aggregate out) k)
           \<and> (map_of (aggregate res) ''overall'' = Some PyNone
                \<longleftrightarrow> (\<forall>k. number_at (out_aggregate out) k = None))"
proof -
  from evaluate_batch_Inr [OF assms] obtain out overall where
    run: "run_evaluation E cfg (samples request) (batch_metrics request) = (Inr out, evs)"
    and mean: "mean_or_none (filter (\<lambda>v. v \<noteq> PyNone) (map snd (out_aggregate out)))
                 = Inr overall"
    and agg: "aggregate res = AList.update ''overall'' (opt_val overall) (out_aggregate out)"
    by blast
  from run have "run_evaluation_sync E cfg (samples request) (batch_metrics request)
                   = (Inr out, evs)"
    by (simp add: run_evaluation_Inr)
  from run_evaluation_sync_Inr [OF this] obtain names df where
    loop: "aggregate_loop E df names [] = Inr (out_aggregate out)"
    by blast
  have "distinct (map fst (out_aggregate out))"
    using aggregate_loop_distinct [OF loop] by simp
  moreover have "\<forall>(k, v) \<in> set (out_aggregate out). mean_entry v"
    using aggregate_loop_values [OF loop] by simp
  ultimately have "mean_or_none (filter (\<lambda>v. v \<noteq> PyNone) (map snd (out_aggregate out)))
                     = Inr (spec_mean (out_aggregate out) UNIV)"
    by (rule batch_overall)
  with mean have ov: "overall = spec_mean (out_aggregate out) UNIV" by simp
  have none: "opt_val (spec_mean (out_aggregate out) UNIV) = PyNone
                \<longleftrightarrow> (\<forall>k. number_at (out_aggregate out) k = None)"
    using spec_mean_None [of "out_aggregate out" UNIV]
    by (cases "spec_mean (out_aggregate out) UNIV") auto
  from run agg ov none show ?thesis
    by (auto simp: update_conv')
qed

text \<open>
  Two samples and two requested metrics, every mean 1/2: the evaluation's aggregate has
  the one entry whose name is a column, and the response gives 1/2 as overall value.
\<close>

theorem evaluate_batch_overall_mean_witness:
  "(let R = evaluate_batch (stub_env (Finite (1/2))) local_config
              (example_batch 2 [''faithfulness'', ''context_precision''])
    in \<not> isl (fst R)
       \<and> map_of (aggregate (projr (fst R))) ''overall''
           = Some (opt_val (spec_mean [(''faithfulness'', PyFloat (Finite (1/2)))] UNIV))
       \<and> map_of (aggregate (projr (fst R))) ''overall'' = Some (PyFloat (Finite (1/2))))"
proof -
  let ?E = "stub_env (Finite (1/2))"
  let ?B = "example_batch 2 [''faithfulness'', ''context_precision'']"
  have "\<exists>res evs. evaluate_batch ?E local_config ?B = (Inr res, evs)"
    by (simp add: model_defs numeral_2_eq_2)
  then obtain res evs where h: "evaluate_batch ?E local_config ?B = (Inr res, evs)" by blast
  have "\<exists>o1 e1. run_evaluation ?E local_config (samples ?B) (batch_metrics ?B) = (Inr o1, e1)
                 \<and> out_aggregate o1 = [(''faithfulness'', PyFloat (Finite (1/2)))]"
    by (simp add: model_defs numeral_2_eq_2)
  with evaluate_batch_overall_mean [OF h]
  have "map_of (aggregate res) ''overall''
          = Some (opt_val (spec_mean [(''faithfulness'', PyFloat (Finite (1/2)))] UNIV))"
    by auto
  moreover have "map_of (aggregate (projr (fst (evaluate_batch ?E local_config ?B)))) ''overall''
                   = Some (PyFloat (Finite (1/2)))"
    by (simp add: model_defs numeral_2_eq_2)
  ultimately show ?thesis
    using h by (simp add: Let_def)
qed

section \<open>C3: batches of the wrong size\<close>

text \<open>
  C3. A batch request with no sample or with more than 100 samples is answered with
  status 400, and the handler leaves an empty trace: no log line, and no call of the
  evaluation library, whatever the library would have done.
\<close>

theorem evaluate_batch_rejects_size:
  assumes "length (samples request) = 0 \<or> length (samples request) > 100"
  shows "\<exists>detail. evaluate_batch E cfg request = (Inl (HTTPException 400 detail), [])"
  using assms by (auto simp: evaluate_batch_def)

text \<open>An empty batch and a batch of 101 samples.\<close>

theorem evaluate_batch_rejects_size_witness:
  "length (samples (example_batch 0 [''faithfulness''])) = 0
   \<and> length (samples (example_batch 101 [''faithfulness''])) > 100
   \<and> status_code (fst (evaluate_batch (stub_env (Finite 1)) local_config
                         (example_batch 0 [''faithfulness'']))) = 400
   \<and> snd (evaluate_batch (stub_env (Finite 1)) local_config
             (example_batch 0 [''faithfulness''])) = []
   \<and> status_code (fst (evaluate_batch (stub_env (Finite 1)) local_config
                         (example_batch 101 [''faithfulness'']))) = 400
   \<and> snd (evaluate_batch (stub_env (Finite 1)) local_config
             (example_batch 101 [''faithfulness''])) = []"
proof -
  have a: "length (samples (example_batch 0 [''faithfulness''])) = 0"
    by (simp add: example_batch_def)
  have b: "length (samples (example_batch 101 [''faithfulness''])) > 100"
    by (simp add: example_batch_def)
  from evaluate_batch_rejects_size [of "example_batch 0 [''faithfulness'']"
         "stub_env (Finite 1)" local_config] a
  obtain d0 where "evaluate_batch (stub_env (Finite 1)) local_config
                     (example_batch 0 [''faithfulness'']) = (Inl (HTTPException 400 d0), [])"
    by blast
  moreover
  from evaluate_batch_rejects_size [of "example_batch 101 [''faithfulness'']"
         "stub_env (Finite 1)" local_config] b
  obtain d1 where "evaluate_batch (stub_env (Finite 1)) local_config
                     (example_batch 101 [''faithfulness'']) = (Inl (HTTPException 400 d1), [])"
    by blast
  ultimately show ?thesis
    using a b by simp
qed

section \<open>C4: indeterminate scores\<close>

text \<open>
  C4. Cleaning replaces a float that is NaN or infinite by the absence marker and leaves
  every other value as it is: finite numbers, text, lists, the marker itself. A table
  with such scores is no error: when the library returns a table and the means of the
  requested columns, the single endpoint returns the first record of the table and the
  batch endpoint all its records, with exactly the indeterminate scores replaced by the
  marker, and the aggregate holds the marker for a mean that is indeterminate.
\<close>

theorem nonfinite_scores_become_null:
  "clean_float v = (if nonfinite v then PyNone else v)
   \<and> clean_dict d = map (\<lambda>(k, v). (k, if nonfinite v then PyNone else v)) d
   \<and> (metrics request = Some names \<and> (\<exists>n \<in> set names. n \<in> catalog)
        \<and> evaluate E
              [make_sample \<lparr>question = question request, answer = answer request,
                  contexts = contexts request, ground_truth = ground_truth request\<rparr>]
              (fst (get_metrics names (get_llm cfg))) = Inr df
        \<and> (\<forall>n \<in> set names. n \<in> set (df_columns df) \<longrightarrow> (\<exists>m. series_mean E df n = Inr m))
      \<longrightarrow> (\<exists>res evs. evaluate_single E cfg request = (Inr res, evs)
             \<and> result_metrics res
                 = (case to_dict_records df of [] \<Rightarrow> []
                    | r # _ \<Rightarrow> map (\<lambda>(k, v). (k, if nonfinite v then PyNone else v)) r)))
   \<and> (1 \<le> length (samples batch) \<and> length (samples batch) \<le> 100
        \<and> batch_metrics batch = Some names \<and> (\<exists>n \<in> set names. n \<in> catalog)
        \<and> evaluate E (map make_sample (samples batch))
              (fst (get_metrics names (get_llm cfg))) = Inr bdf
        \<and> (\<forall>n \<in> set names. n \<in> set (df_columns bdf) \<longrightarrow> (\<exists>m. series_mean E bdf n = Inr m))
      \<longrightarrow> (\<exists>res evs. evaluate_batch E cfg batch = (Inr res, evs)
             \<and> results res
                 = map (map (\<lambda>(k, v). (k, if nonfinite v then PyNone else v)))
                     (to_dict_records bdf)
             \<and> (\<forall>n m. n \<in> set names \<and> n \<in> set (df_columns bdf) \<and> n \<noteq> ''overall''
                        \<and> series_mean E bdf n = Inr m
                    \<longrightarrow> map_of (aggregate res) n
                          = Some (if nonfinite (PyFloat m) then PyNone else PyFloat m))))"
proof (intro conjI impI)
  show "clean_float v = (if nonfinite v then PyNone else v)"
    by (simp add: clean_float_eq null_if_nonfinite_def)
  show "clean_dict d = map (\<lambda>(k, v). (k, if nonfinite v then PyNone else v)) d"
    by (simp add: clean_dict_eq null_if_nonfinite_def)
next
  assume a: "metrics request = Some names \<and> (\<exists>n \<in> set names. n \<in> catalog)
        \<and> evaluate E
              [make_sample \<lparr>question = question request, answer = answer request,
                  contexts = contexts request, ground_truth = ground_truth request\<rparr>]
              (fst (get_metrics names (get_llm cfg))) = Inr df
        \<and> (\<forall>n \<in> set names. n \<in> set (df_columns df) \<longrightarrow> (\<exists>m. series_mean E df n = Inr m))"
  then have "\<exists>res evs. evaluate_single E cfg request = (Inr res, evs)
           \<and> result_metrics res
               = (case to_dict_records df of [] \<Rightarrow> []
                  | r # _ \<Rightarrow> map (\<lambda>(k, v). (k, null_if_nonfinite v)) r)"
    using evaluate_single_returns [where request = request and names = names and cfg = cfg
        and E = E and df = df] by blast
  then show "\<exists>res evs. evaluate_single E cfg request = (Inr res, evs)
             \<and> result_metrics res
                 = (case to_dict_records df of [] \<Rightarrow> []
                    | r # _ \<Rightarrow> map (\<lambda>(k, v). (k, if nonfinite v then PyNone else v)) r)"
    unfolding null_if_nonfinite_def .
next
  assume b: "1 \<le> length (samples batch) \<and> length (samples batch) \<le> 100
        \<and> batch_metrics batch = Some names \<and> (\<exists>n \<in> set names. n \<in> catalog)
        \<and> evaluate E (map make_sample (samples batch))
              (fst (get_metrics names (get_llm cfg))) = Inr bdf
        \<and> (\<forall>n \<in> set names. n \<in> set (df_columns bdf) \<longrightarrow> (\<exists>m. series_mean E bdf n = Inr m))"
  then have "\<exists>res evs. evaluate_batch E cfg batch = (Inr res, evs)
           \<and> results res
               = map (map (\<lambda>(k, v). (k, null_if_nonfinite v))) (to_dict_records bdf)
           \<and> (\<forall>n m. n \<in> set names \<and> n \<in> set (df_columns bdf) \<and> n \<noteq> ''overall''
                      \<and> series_mean E bdf n = Inr m
                  \<longrightarrow> map_of (aggregate res) n = Some (null_if_nonfinite (PyFloat m)))"
    using evaluate_batch_returns [where request = batch and names = names and cfg = cfg
        and E = E and df = bdf] by blast
  then show "\<exists>res evs. evaluate_batch E cfg batch = (Inr res, evs)
             \<and> results res
                 = map (map (\<lambda>(k, v). (k, if nonfinite v then PyNone else v)))
                     (to_dict_records bdf)
             \<and> (\<forall>n m. n \<in> set names \<and> n \<in> set (df_columns bdf) \<and> n \<noteq> ''overall''
                        \<and> series_mean E bdf n = Inr m
                    \<longrightarrow> map_of (aggregate res) n
                          = Some (if nonfinite (PyFloat m) then PyNone else PyFloat m))"
    unfolding null_if_nonfinite_def .
qed

text \<open>
  A stub scorer that gives NaN for every score: the response is returned, and the score
  and the mean are the absence marker.
\<close>

theorem nonfinite_scores_become_null_witness:
  "(let S = evaluate_single (stub_env NaN) local_config (example_request [''faithfulness'']);
        B = evaluate_batch (stub_env NaN) local_config (example_batch 2 [''faithfulness''])
    in clean_float (PyFloat NaN) = PyNone
       \<and> \<not> isl (fst S)
       \<and> result_metrics (projr (fst S))
           = [(''user_input'', PyStr ''What is the capital of France?''),
              (''faithfulness'', PyNone)]
       \<and> \<not> isl (fst B)
       \<and> map_of (aggregate (projr (fst B))) ''faithfulness'' = Some PyNone)"
proof -
  let ?rq = "example_request [''faithfulness'']"
  let ?bq = "example_batch 2 [''faithfulness'']"
  let ?s = "\<lparr>question = question ?rq, answer = answer ?rq,
             contexts = contexts ?rq, ground_truth = ground_truth ?rq\<rparr>"
  let ?ms = "fst (get_metrics [''faithfulness''] (get_llm local_config))"
  let ?df = "stub_table (PyFloat NaN) [make_sample ?s] ?ms"
  let ?bdf = "stub_table (PyFloat NaN) (map make_sample (samples ?bq)) ?ms"
  note inst = nonfinite_scores_become_null [where request = "?rq"
      and names = "[''faithfulness'']" and E = "stub_env NaN" and cfg = local_config
      and df = "?df" and batch = "?bq" and bdf = "?bdf"]
  have hs: "metrics ?rq = Some [''faithfulness'']
        \<and> (\<exists>n \<in> set [''faithfulness'']. n \<in> catalog)
        \<and> evaluate (stub_env NaN) [make_sample ?s] ?ms = Inr ?df
        \<and> (\<forall>n \<in> set [''faithfulness'']. n \<in> set (df_columns ?df)
              \<longrightarrow> (\<exists>m. series_mean (stub_env NaN) ?df n = Inr m))"
    by (simp add: example_request_def stub_env_def catalog_def)
  have hb: "1 \<le> length (samples ?bq) \<and> length (samples ?bq) \<le> 100
        \<and> batch_metrics ?bq = Some [''faithfulness'']
        \<and> (\<exists>n \<in> set [''faithfulness'']. n \<in> catalog)
        \<and> evaluate (stub_env NaN) (map make_sample (samples ?bq)) ?ms = Inr ?bdf
        \<and> (\<forall>n \<in> set [''faithfulness'']. n \<in> set (df_columns ?bdf)
              \<longrightarrow> (\<exists>m. series_mean (stub_env NaN) ?bdf n = Inr m))"
    by (simp add: example_batch_def stub_env_def catalog_def)
  from inst hs obtain res evs where
    s: "evaluate_single (stub_env NaN) local_config ?rq = (Inr res, evs)"
    by blast
  from inst hb obtain bres bevs where
    b: "evaluate_batch (stub_env NaN) local_config ?bq = (Inr bres, bevs)"
    and agg: "\<forall>n m. n \<in> set [''faithfulness''] \<and> n \<in> set (df_columns ?bdf) \<and> n \<noteq> ''overall''
                    \<and> series_mean (stub_env NaN) ?bdf n = Inr m
                \<longrightarrow> map_of (aggregate bres) n
                      = Some (if nonfinite (PyFloat m) then PyNone else PyFloat m)"
    by blast
  have "''faithfulness'' \<in> set (df_columns ?bdf)"
    by (simp add: stub_table_def AVAILABLE_METRICS_def)
  moreover have "series_mean (stub_env NaN) ?bdf ''faithfulness'' = Inr NaN"
    by (simp add: stub_env_def)
  ultimately have "map_of (aggregate bres) ''faithfulness'' = Some PyNone"
    using agg by auto
  moreover have "result_metrics (projr (fst (evaluate_single (stub_env NaN) local_config ?rq)))
           = [(''user_input'', PyStr ''What is the capital of France?''),
              (''faithfulness'', PyNone)]"
    by (simp add: model_defs)
  ultimately show ?thesis
    using s b by (simp add: Let_def)
qed

section \<open>C5: unknown metric identifiers\<close>




section \<open>C6: the size of a batch response\<close>

text \<open>
  C6. For a batch of N samples with 1 \<le> N \<le> 100, a returned response has
  \<open>total_samples\<close> = N, and \<open>results\<close> has length N, given that the library keeps its
  contract of one table row per sample: \<open>results\<close> is the list of the table's rows.
\<close>

theorem batch_total_and_results_length:
  assumes "1 \<le> length (samples request)" and "length (samples request) \<le> 100"
    and contract: "\<And>ds ms df. evaluate E ds ms = Inr df \<Longrightarrow> length (df_rows df) = length ds"
    and ret: "evaluate_batch E cfg request = (Inr res, evs)"
  shows "total_samples res = length (samples request)
         \<and> length (results res) = length (samples request)"
proof -
  from evaluate_batch_Inr [OF ret] obtain out where
    run: "run_evaluation E cfg (samples request) (batch_metrics request) = (Inr out, evs)"
    and rs: "results res = scores out"
    and ts: "total_samples res = length (samples request)"
    by blast
  from run have "run_evaluation_sync E cfg (samples request) (batch_metrics request)
                   = (Inr out, evs)"
    by (simp add: run_evaluation_Inr)
  from run_evaluation_sync_Inr [OF this] obtain names df where
    lib: "evaluate E (map make_sample (samples request))
            (fst (get_metrics names (get_llm cfg))) = Inr df"
    and sc: "scores out = map clean_dict (to_dict_records df)"
    by blast
  from contract [OF lib] have "length (df_rows df) = length (samples request)"
    by simp
  with sc rs ts show ?thesis
    by (simp add: to_dict_records_def)
qed

text \<open>A batch of two samples against the stub, which gives one row per sample.\<close>

theorem batch_total_and_results_length_witness:
  "(let B = example_batch 2 [''faithfulness''];
        R = evaluate_batch (stub_env (Finite (1/2))) local_config B
    in 1 \<le> length (samples B) \<and> length (samples B) \<le> 100
       \<and> (\<forall>ds ms. length (df_rows (stub_table (PyFloat (Finite (1/2))) ds ms)) = length ds)
       \<and> \<not> isl (fst R)
       \<and> total_samples (projr (fst R)) = 2
       \<and> length (results (projr (fst R))) = 2)"
proof -
  let ?B = "example_batch 2 [''faithfulness'']"
  let ?E = "stub_env (Finite (1/2))"
  have n: "length (samples ?B) = 2"
    by (simp add: example_batch_def)
  have c: "length (df_rows df) = length ds" if "evaluate ?E ds ms = Inr df" for ds ms df
    using that by (auto simp: stub_env_def stub_table_def)
  have "\<exists>res evs. evaluate_batch ?E local_config ?B = (Inr res, evs)"
    by (simp add: model_defs numeral_2_eq_2)
  then obtain res evs where h: "evaluate_batch ?E local_config ?B = (Inr res, evs)" by blast
  have "total_samples res = length (samples ?B) \<and> length (results res) = length (samples ?B)"
    using n by (intro batch_total_and_results_length [OF _ _ c h]) simp_all
  with n h show ?thesis
    by (simp add: Let_def stub_table_def)
qed

section \<open>C7: the reference field of a single-turn record\<close>

text \<open>
  C7 as stated fails: a ground truth that is supplied but empty leaves the reference
  unset, because the source tests the ground truth for truth, not for presence.
\<close>

theorem reference_iff_ground_truth_counterexample:
  "ground_truth (example_sample\<lparr>ground_truth := Some ''''\<rparr>) \<noteq> None
   \<and> reference (make_sample (example_sample\<lparr>ground_truth := Some ''''\<rparr>)) = None"
  by (simp add: make_sample_def example_sample_def)

text \<open>
  C7, amended. Every call of the library gets one single-turn record per sample, in
  order, and the record's reference is set if and only if the sample's ground truth is
  supplied and not empty; it is then the ground truth. With no ground truth, or an empty
  one, the reference is left unset.
\<close>

theorem reference_iff_nonempty_ground_truth:
  assumes "EvaluateCall ds ms \<in> set (snd (run_evaluation E cfg smpls mn))"
  shows "length ds = length smpls
         \<and> (\<forall>i < length smpls.
               (reference (ds ! i) \<noteq> None
                  \<longleftrightarrow> (\<exists>g. ground_truth (smpls ! i) = Some g \<and> g \<noteq> ''''))
               \<and> (reference (ds ! i) \<noteq> None
                    \<longrightarrow> reference (ds ! i) = ground_truth (smpls ! i)))"
proof -
  from run_evaluation_call_args [OF assms] have ds: "ds = map make_sample smpls" .
  have "reference (make_sample s)
          = (case ground_truth s of None \<Rightarrow> None
             | Some g \<Rightarrow> if g = '''' then None else Some g)" for s
    by (simp add: make_sample_def split: option.splits)
  with ds show ?thesis
    by (auto split: option.splits if_splits)
qed

text \<open>
  Three samples: no ground truth, an empty one, and the ground truth \<open>Paris\<close>. Only the
  third record has a reference.
\<close>

theorem reference_iff_nonempty_ground_truth_witness:
  "(let smpls = [example_sample, example_sample\<lparr>ground_truth := Some ''''\<rparr>,
                 example_sample\<lparr>ground_truth := Some ''Paris''\<rparr>];
        ds = map make_sample smpls;
        ms = [Metric Faithfulness (get_llm local_config)]
    in EvaluateCall ds ms
         \<in> set (snd (run_evaluation (stub_env (Finite 1)) local_config smpls
                        (Some [''faithfulness''])))
       \<and> map reference ds = [None, None, Some ''Paris''])"
proof -
  let ?smpls = "[example_sample, example_sample\<lparr>ground_truth := Some ''''\<rparr>,
                 example_sample\<lparr>ground_truth := Some ''Paris''\<rparr>]"
  let ?ds = "map make_sample ?smpls"
  let ?ms = "[Metric Faithfulness (get_llm local_config)]"
  have call: "EvaluateCall ?ds ?ms
         \<in> set (snd (run_evaluation (stub_env (Finite 1)) local_config ?smpls
                        (Some [''faithfulness''])))"
    by (simp add: model_defs)
  from reference_iff_nonempty_ground_truth [OF call]
  have "\<forall>i < 3. (reference (?ds ! i) \<noteq> None
                  \<longleftrightarrow> (\<exists>g. ground_truth (?smpls ! i) = Some g \<and> g \<noteq> ''''))
               \<and> (reference (?ds ! i) \<noteq> None
                    \<longrightarrow> reference (?ds ! i) = ground_truth (?smpls ! i))"
    by simp
  then have "reference (?ds ! 0) = None \<and> reference (?ds ! 1) = None
             \<and> reference (?ds ! 2) = Some ''Paris''"
    by (simp add: example_sample_def All_less_Suc numeral_3_eq_3 numeral_2_eq_2
             del: list.map nth_map)
  then have "map reference ?ds = [None, None, Some ''Paris'']"
    by (simp add: numeral_2_eq_2)
  with call show ?thesis
    by (simp only: Let_def)
qed

section \<open>C8: the LLM client selector\<close>

text \<open>
  C8. The selector returns the hosted client exactly when the provider is \<open>openai\<close>
  and the API key is not empty. With the provider \<open>openai\<close> and an empty key it returns
  the local client with the configured model and base URL; the selector has no error
  outcome and logs nothing.
\<close>

theorem get_llm_hosted_iff:
  "(is_hosted (get_llm cfg) \<longleftrightarrow> LLM_PROVIDER cfg = ''openai'' \<and> OPENAI_API_KEY cfg \<noteq> '''')
   \<and> (LLM_PROVIDER cfg = ''openai'' \<and> OPENAI_API_KEY cfg = ''''
        \<longrightarrow> get_llm cfg = ChatOllama (OLLAMA_MODEL cfg) (OLLAMA_BASE_URL cfg) 0)"
  by (simp add: get_llm_def)

text \<open>The provider \<open>openai\<close> once with a key and once without.\<close>

theorem get_llm_hosted_iff_witness:
  "is_hosted (get_llm (local_config\<lparr>LLM_PROVIDER := ''openai'', OPENAI_API_KEY := ''sk-test''\<rparr>))
   \<and> LLM_PROVIDER (local_config\<lparr>LLM_PROVIDER := ''openai''\<rparr>) = ''openai''
   \<and> OPENAI_API_KEY (local_config\<lparr>LLM_PROVIDER := ''openai''\<rparr>) = ''''
   \<and> get_llm (local_config\<lparr>LLM_PROVIDER := ''openai''\<rparr>)
       = ChatOllama ''llama3.2'' ''http://localhost:11434'' 0"
  using get_llm_hosted_iff
          [of "local_config\<lparr>LLM_PROVIDER := ''openai'', OPENAI_API_KEY := ''sk-test''\<rparr>"]
        get_llm_hosted_iff [of "local_config\<lparr>LLM_PROVIDER := ''openai''\<rparr>"]
  by (simp add: local_config_def)

section \<open>C9: the health endpoint\<close>

text \<open>
  C9. The health endpoint returns a response, sent with status 200, for every
  configuration, and its \<open>available_metrics\<close> are the four names of the catalog. The
  handler reads the configuration only: it has no access to an LLM backend.
\<close>

theorem health_check_metrics:
  "\<exists>r. health_check cfg = Inr r
       \<and> status_code (health_check cfg) = 200
       \<and> available_metrics r
           = [''faithfulness'', ''answer_relevancy'', ''context_precision'', ''context_recall'']
       \<and> set (available_metrics r) = catalog"
  by (simp add: health_check_def AVAILABLE_METRICS_def catalog_def)

section \<open>C10: requested names that are no column\<close>

text \<open>
  C10 as stated fails for the name \<open>overall\<close>: requested, and no column of the table,
  it is still a key of the aggregate of the response, where the handler stores the
  overall mean.
\<close>

theorem absent_column_omitted_counterexample:
  "''overall'' \<in> set [''faithfulness'', ''overall'']
   \<and> ''overall'' \<notin> set (df_columns
         (stub_table (PyFloat (Finite (1/2))) (map make_sample [example_sample])
            (fst (get_metrics [''faithfulness'', ''overall''] (get_llm local_config)))))
   \<and> \<not> isl (fst (evaluate_batch (stub_env (Finite (1/2))) local_config
                    (example_batch 1 [''faithfulness'', ''overall''])))
   \<and> map_of (aggregate (projr (fst (evaluate_batch (stub_env (Finite (1/2))) local_config
                                      (example_batch 1 [''faithfulness'', ''overall'']))))) ''overall''
       = Some (PyFloat (Finite (1/2)))"
  by (simp add: model_defs)

text \<open>
  C10, amended. In a returned batch response a name that is no column of the library's
  table, and is not \<open>overall\<close>, is no key of the aggregate. Whatever the name, it gets no
  entry from the evaluation, and the aggregate is the one the evaluation computes with
  that name struck from the request, completed by the overall mean of its entries: the
  name contributes nothing.
\<close>

theorem absent_column_omitted_from_aggregate:
  assumes ret: "evaluate_batch E cfg request = (Inr res, evs)"
    and names: "batch_metrics request = Some names"
    and lib: "evaluate E (map make_sample (samples request))
                (fst (get_metrics names (get_llm cfg))) = Inr df"
    and m: "m \<notin> set (df_columns df)"
  shows "(m \<noteq> ''overall'' \<longrightarrow> map_of (aggregate res) m = None)
         \<and> (\<exists>agg. aggregate_loop E df (removeAll m names) [] = Inr agg
                \<and> map_of agg m = None
                \<and> aggregate res = AList.update ''overall'' (opt_val (spec_mean agg UNIV)) agg)"
proof -
  from evaluate_batch_Inr [OF ret] obtain out overall where
    run: "run_evaluation E cfg (samples request) (batch_metrics request) = (Inr out, evs)"
    and mean: "mean_or_none (filter (\<lambda>v. v \<noteq> PyNone) (map snd (out_aggregate out)))
                 = Inr overall"
    and agg: "aggregate res = AList.update ''overall'' (opt_val overall) (out_aggregate out)"
    by blast
  from run have "run_evaluation_sync E cfg (samples request) (batch_metrics request)
                   = (Inr out, evs)"
    by (simp add: run_evaluation_Inr)
  from run_evaluation_sync_Inr [OF this] names lib
  have loop: "aggregate_loop E df names [] = Inr (out_aggregate out)"
    by auto
  have "distinct (map fst (out_aggregate out))"
    using aggregate_loop_distinct [OF loop] by simp
  moreover have "\<forall>(k, v) \<in> set (out_aggregate out). mean_entry v"
    using aggregate_loop_values [OF loop] by simp
  ultimately have "mean_or_none (filter (\<lambda>v. v \<noteq> PyNone) (map snd (out_aggregate out)))
                     = Inr (spec_mean (out_aggregate out) UNIV)"
    by (rule batch_overall)
  with mean have ov: "overall = spec_mean (out_aggregate out) UNIV" by simp
  from aggregate_loop_other [OF loop, of m] m
  have none: "map_of (out_aggregate out) m = None" by simp
  from loop m have "aggregate_loop E df (removeAll m names) [] = Inr (out_aggregate out)"
    by (simp add: aggregate_loop_removeAll)
  with none agg ov show ?thesis
    by (auto simp: update_conv')
qed

text \<open>
  The catalog name \<open>context_precision\<close> is requested; the stub's column for that metric
  has another name. The aggregate of the response has no entry for it.
\<close>

theorem absent_column_omitted_from_aggregate_witness:
  "(let names = [''faithfulness'', ''context_precision''];
        R = evaluate_batch (stub_env (Finite (1/2))) local_config (example_batch 1 names)
    in ''context_precision'' \<notin> set (df_columns
             (stub_table (PyFloat (Finite (1/2))) (map make_sample [example_sample])
                (fst (get_metrics names (get_llm local_config)))))
       \<and> \<not> isl (fst R)
       \<and> map_of (aggregate (projr (fst R))) ''context_precision'' = None
       \<and> aggregate (projr (fst R))
           = [(''faithfulness'', PyFloat (Finite (1/2))), (''overall'', PyFloat (Finite (1/2)))])"
proof -
  let ?names = "[''faithfulness'', ''context_precision'']"
  let ?E = "stub_env (Finite (1/2))"
  let ?B = "example_batch 1 ?names"
  let ?df = "stub_table (PyFloat (Finite (1/2))) (map make_sample [example_sample])
               (fst (get_metrics ?names (get_llm local_config)))"
  have "\<exists>res evs. evaluate_batch ?E local_config ?B = (Inr res, evs)"
    by (simp add: model_defs)
  then obtain res evs where h: "evaluate_batch ?E local_config ?B = (Inr res, evs)" by blast
  have n: "batch_metrics ?B = Some ?names"
    by (simp add: example_batch_def)
  have l: "evaluate ?E (map make_sample (samples ?B))
             (fst (get_metrics ?names (get_llm local_config))) = Inr ?df"
    by (simp add: example_batch_def stub_env_def)
  have c: "''context_precision'' \<notin> set (df_columns ?df)"
    by (simp add: stub_table_def AVAILABLE_METRICS_def)
  from absent_column_omitted_from_aggregate [OF h n l c]
  have "map_of (aggregate res) ''context_precision'' = None"
    by simp
  moreover have "aggregate (projr (fst (evaluate_batch ?E local_config ?B)))
           = [(''faithfulness'', PyFloat (Finite (1/2))), (''overall'', PyFloat (Finite (1/2)))]"
    by (simp add: model_defs)
  ultimately show ?thesis
    using h c by (simp add: Let_def)
qed

end
